theory Spec2Isabelle
  imports Complex_Main
begin

section \<open>The tobject2json addon (QualityControl/tobject2json.cc)\<close>

text \<open>
  The file is a Node.js native addon written against node-addon-api (\<open>napi.h\<close>). It
  exports two functions, \<open>init\<close> (\<open>InitBackend\<close>) and \<open>get\<close> (\<open>GetObject\<close>), keeps five
  file-level strings as configuration and defines one \<open>Napi::AsyncWorker\<close> subclass.

  The embedding follows the C++ text statement by statement. What the file only uses
  (JavaScript values, the node-addon-api calls, the QualityControl database backend) is
  modelled just far enough to give every statement of the file a meaning:
  \<^item> a C++ function is a function from the program state to an outcome and the new state;
    a C++ exception is the outcome \<open>Throws\<close>;
  \<^item> a JavaScript exception is not a C++ exception: \<open>ThrowAsJavaScriptException\<close> only
    records it as pending in the environment and returns to the C++ code, which goes on
    running until it returns; the exception reaches the JavaScript caller then;
  \<^item> the backend is a parameter: three functions that say, for each call, whether it
    throws and what it returns;
  \<^item> every call into the backend and every call of a JavaScript function is appended to
    a trace, together with the thread that makes it.
\<close>

subsection \<open>JavaScript values\<close>

text \<open>
  A JavaScript number is a double: a finite value (a rational), NaN or an infinity.
  A JavaScript string is given by its UTF-8 encoding, which is what the file sees of it
  (\<open>Utf8Value\<close>) and what it builds one from (\<open>Napi::String::New\<close>).
\<close>

datatype jsnumber = Finite rat | NaN | PosInfinity | NegInfinity

datatype error_class = Error | TypeError

datatype jsvalue =
    JUndefined
  | JNull
  | JBoolean bool
  | JNumber jsnumber
  | JString string
  | JFunction nat
  | JObject "(string \<times> jsvalue) list"
  | JError error_class string

text \<open>
  \<open>Napi::Value::IsString\<close>, \<open>IsNumber\<close> and \<open>IsFunction\<close>: tests on the type tag. The file
  calls the first and the last; the second is what \<open>napi_get_value_int64\<close> tests.
\<close>

fun IsString :: "jsvalue \<Rightarrow> bool" where
  "IsString (JString s) = True"
| "IsString v = False"


fun IsFunction :: "jsvalue \<Rightarrow> bool" where
  "IsFunction (JFunction f) = True"
| "IsFunction v = False"

text \<open>
  \<open>Napi::CallbackInfo\<close>: the arguments of the call. \<open>info.Length()\<close> is their number and
  \<open>info[i]\<close> is the i-th argument, or \<open>undefined\<close> when fewer were passed.
\<close>

definition Length :: "jsvalue list \<Rightarrow> nat" where
  "Length info = length info"

definition arg :: "jsvalue list \<Rightarrow> nat \<Rightarrow> jsvalue" where
  "arg info i = (if i < length info then info ! i else JUndefined)"

subsection \<open>The backend\<close>

text \<open>
  \<open>DatabaseFactory::create(type)\<close> gives a \<open>DatabaseInterface\<close>; the file calls \<open>connect\<close>
  and \<open>retrieveJson\<close> on it. An instance is described by the type it was created with and
  the connection parameters it was given. Each of the three calls either returns or throws
  a C++ exception derived from \<open>std::exception\<close>, identified by its \<open>what()\<close> text:
  \<open>create_throws\<close> and \<open>connect_throws\<close> give the text when the call throws, and
  \<open>retrieveJson_gives\<close> gives \<open>Inl\<close> of the text when the call throws and \<open>Inr\<close> of the
  returned string otherwise. The timestamp is a \<open>long\<close>, here its value as an integer.
\<close>

record DatabaseInterface =
  created_as :: string
  connected_to :: "(string \<times> string \<times> string \<times> string) option"

record backend =
  create_throws :: "string \<Rightarrow> string option"
  connect_throws :: "DatabaseInterface \<Rightarrow> string \<Rightarrow> string \<Rightarrow> string \<Rightarrow> string \<Rightarrow> string option"
  retrieveJson_gives :: "DatabaseInterface \<Rightarrow> string \<Rightarrow> int \<Rightarrow> (string \<rightharpoonup> string) \<Rightarrow> string + string"

subsection \<open>Program state\<close>

datatype thread = MainThread | WorkerThread

datatype event =
    EnableThreadSafety
  | Create string
  | Connect string string string string
  | RetrieveJson string int "string \<rightharpoonup> string"
  | MakeCallback jsvalue jsvalue "jsvalue list"

text \<open>
  The members of \<open>TObjectAsyncWorker\<close>, with the three of its base class
  \<open>Napi::AsyncWorker\<close> that matter: the callback and the receiver it was constructed with
  and the error message (\<open>_error\<close>, empty when no error was set).
\<close>

record worker =
  Callback :: jsvalue
  Receiver :: jsvalue
  error_message :: string
  BackendInstance :: DatabaseInterface
  path :: string
  output' :: string
  timestamp :: int

text \<open>
  The five file-level strings, the pending JavaScript exception of the environment, the
  workers queued for execution, and the trace.
\<close>

record state =
  type :: string
  host :: string
  database :: string
  username :: string
  password :: string
  pending :: "jsvalue option"
  queue :: "worker list"
  trace :: "(thread \<times> event) list"

datatype cpp_exception = NapiError jsvalue | StdException string

datatype 'a outcome = Returns 'a | Throws cpp_exception

type_synonym 'a cpp = "state \<Rightarrow> 'a outcome \<times> state"

definition returns :: "'a \<Rightarrow> 'a cpp" where
  "returns x s = (Returns x, s)"

definition throws :: "cpp_exception \<Rightarrow> 'a cpp" where
  "throws e s = (Throws e, s)"

text \<open>Sequencing of two statements: an exception of the first skips the second.\<close>

definition seq :: "'a cpp \<Rightarrow> ('a \<Rightarrow> 'b cpp) \<Rightarrow> 'b cpp" where
  "seq m f s = (case m s of (Returns x, s') \<Rightarrow> f x s' | (Throws e, s') \<Rightarrow> (Throws e, s'))"

definition emit :: "thread \<Rightarrow> event \<Rightarrow> unit cpp" where
  "emit t e s = (Returns (), s\<lparr>trace := trace s @ [(t, e)]\<rparr>)"

definition global :: "(state \<Rightarrow> 'a) \<Rightarrow> 'a cpp" where
  "global f s = (Returns (f s), s)"

definition assign :: "(state \<Rightarrow> state) \<Rightarrow> unit cpp" where
  "assign f s = (Returns (), f s)"

subsection \<open>The node-addon-api calls the file makes\<close>

text \<open>
  \<open>Napi::TypeError::New(env, message)\<close> creates a JavaScript \<open>TypeError\<close>, and
  \<open>ThrowAsJavaScriptException\<close> makes it the pending exception of the environment
  (\<open>napi_throw\<close>). Control returns to the C++ statement that follows.
\<close>

definition TypeError_New :: "string \<Rightarrow> jsvalue" where
  "TypeError_New message = JError TypeError message"

definition ThrowAsJavaScriptException :: "jsvalue \<Rightarrow> unit cpp" where
  "ThrowAsJavaScriptException e s = (Returns (), s\<lparr>pending := Some e\<rparr>)"

text \<open>
  \<open>Value::As<T>()\<close> does not look at the value: it only changes the static C++ type, so
  it is the identity here. The check comes with the first call that needs the value:
  \<open>napi_get_value_string_utf8\<close> answers \<open>napi_string_expected\<close> for a value that is not a
  string and \<open>napi_get_value_int64\<close> answers \<open>napi_number_expected\<close> for one that is not a
  number. node-addon-api then runs \<open>NAPI_THROW_IF_FAILED\<close>: it builds the error with
  \<open>Napi::Error::New(env)\<close>, which takes the pending exception when there is one (and
  clears it) and the message of the failed call otherwise, and
  \<^item> when the addon is compiled with C++ exceptions (\<open>NAPI_CPP_EXCEPTIONS\<close>), throws it as
    a C++ exception;
  \<^item> when it is compiled without (\<open>NAPI_DISABLE_CPP_EXCEPTIONS\<close>), makes it the pending
    JavaScript exception and returns a default value (the empty string, zero).
  Which of the two the addon is compiled with is decided by its build file, so it is the
  parameter \<open>cpp_exceptions\<close> of every function below.
\<close>

definition Error_New :: "string \<Rightarrow> jsvalue cpp" where
  "Error_New message s =
     (case pending s of
        Some e \<Rightarrow> (Returns e, s\<lparr>pending := None\<rparr>)
      | None \<Rightarrow> (Returns (JError TypeError message), s))"

definition NAPI_THROW_IF_FAILED :: "bool \<Rightarrow> string \<Rightarrow> 'a \<Rightarrow> 'a cpp" where
  "NAPI_THROW_IF_FAILED cpp_exceptions message dflt =
     seq (Error_New message) (\<lambda>e.
       if cpp_exceptions then throws (NapiError e)
       else seq (ThrowAsJavaScriptException e) (\<lambda>_. returns dflt))"

text \<open>
  \<open>Napi::String::operator std::string\<close>, that is \<open>Utf8Value()\<close>: the conversion behind
  \<open>std::string x = v.As<Napi::String>()\<close>.
\<close>

definition Utf8Value :: "bool \<Rightarrow> jsvalue \<Rightarrow> string cpp" where
  "Utf8Value cpp_exceptions v =
     (case v of
        JString str \<Rightarrow> returns str
      | _ \<Rightarrow> NAPI_THROW_IF_FAILED cpp_exceptions ''A string was expected'' [])"

text \<open>
  \<open>Napi::Number::Int64Value()\<close>: a finite number is truncated towards zero and kept in the
  range of \<open>int64_t\<close>; NaN and the infinities give zero.
\<close>

definition INT64_MIN :: int where
  "INT64_MIN = - (2 ^ 63)"

definition INT64_MAX :: int where
  "INT64_MAX = 2 ^ 63 - 1"

fun double_to_int64 :: "jsnumber \<Rightarrow> int" where
  "double_to_int64 (Finite r) =
     (let t = (if 0 \<le> r then \<lfloor>r\<rfloor> else \<lceil>r\<rceil>)
      in if t < INT64_MIN then INT64_MIN else if INT64_MAX < t then INT64_MAX else t)"
| "double_to_int64 NaN = 0"
| "double_to_int64 PosInfinity = 0"
| "double_to_int64 NegInfinity = 0"

definition Int64Value :: "bool \<Rightarrow> jsvalue \<Rightarrow> int cpp" where
  "Int64Value cpp_exceptions v =
     (case v of
        JNumber n \<Rightarrow> returns (double_to_int64 n)
      | _ \<Rightarrow> NAPI_THROW_IF_FAILED cpp_exceptions ''A number was expected'' 0)"

text \<open>
  The integer conversions of C++ on a platform where \<open>long\<close> has 64 bits: \<open>int64_t\<close> to
  \<open>uint64_t\<close> is the value modulo \<open>2^64\<close>, and \<open>uint64_t\<close> to \<open>long\<close> is the value with the
  same 64 bits in two's complement.
\<close>

definition uint64_of_int64 :: "int \<Rightarrow> int" where
  "uint64_of_int64 v = v mod 2 ^ 64"

definition long_of_uint64 :: "int \<Rightarrow> int" where
  "long_of_uint64 u = (if u < 2 ^ 63 then u else u - 2 ^ 64)"

text \<open>
  \<open>Napi::String::New(env, std::string)\<close> calls \<open>napi_create_string_utf8\<close>, which decodes the
  bytes as UTF-8. Bytes that do not form a well-formed sequence are not kept: the decoder
  puts U+FFFD (in UTF-8 the bytes EF BF BD) for the part read so far and goes on with the
  byte that did not fit.

  \<open>lead_byte\<close> is the first column of the table of well-formed UTF-8 sequences: for a
  byte that can start a sequence, the number of bytes that follow and the range of the
  first of them (the others are in 80..BF).
\<close>

datatype lead = Ascii | Lead nat nat nat | Invalid

definition lead_byte :: "char \<Rightarrow> lead" where
  "lead_byte c =
     (let b = (of_char c :: nat)
      in if b \<le> 0x7F then Ascii
         else if 0xC2 \<le> b \<and> b \<le> 0xDF then Lead 1 0x80 0xBF
         else if b = 0xE0 then Lead 2 0xA0 0xBF
         else if b = 0xED then Lead 2 0x80 0x9F
         else if 0xE1 \<le> b \<and> b \<le> 0xEF then Lead 2 0x80 0xBF
         else if b = 0xF0 then Lead 3 0x90 0xBF
         else if b = 0xF4 then Lead 3 0x80 0x8F
         else if 0xF1 \<le> b \<and> b \<le> 0xF3 then Lead 3 0x80 0xBF
         else Invalid)"

definition in_range :: "nat \<Rightarrow> nat \<Rightarrow> char \<Rightarrow> bool" where
  "in_range lo hi c = (lo \<le> of_char c \<and> (of_char c :: nat) \<le> hi)"

definition U_FFFD :: string where
  "U_FFFD = [CHR 0xEF, CHR 0xBF, CHR 0xBD]"

fun utf8_decode :: "string \<Rightarrow> string" where
  "utf8_decode [] = []"
| "utf8_decode (c # cs) =
     (case lead_byte c of
        Ascii \<Rightarrow> c # utf8_decode cs
      | Invalid \<Rightarrow> U_FFFD @ utf8_decode cs
      | Lead k lo hi \<Rightarrow>
          (case cs of
             [] \<Rightarrow> U_FFFD
           | c1 # r1 \<Rightarrow>
               if \<not> in_range lo hi c1 then U_FFFD @ utf8_decode cs
               else if k = 1 then c # c1 # utf8_decode r1
               else
                 (case r1 of
                    [] \<Rightarrow> U_FFFD
                  | c2 # r2 \<Rightarrow>
                      if \<not> in_range 0x80 0xBF c2 then U_FFFD @ utf8_decode r1
                      else if k = 2 then c # c1 # c2 # utf8_decode r2
                      else
                        (case r2 of
                           [] \<Rightarrow> U_FFFD
                         | c3 # r3 \<Rightarrow>
                             if \<not> in_range 0x80 0xBF c3 then U_FFFD @ utf8_decode r2
                             else c # c1 # c2 # c3 # utf8_decode r3))))"

definition String_New :: "string \<Rightarrow> jsvalue" where
  "String_New str = JString (utf8_decode str)"

text \<open>
  Well-formed UTF-8, as the Unicode standard defines it: every byte below 80 stands alone,
  and every other sequence is a lead byte followed by the right number of bytes in the
  right ranges.
\<close>

fun well_formed_utf8 :: "string \<Rightarrow> bool" where
  "well_formed_utf8 [] = True"
| "well_formed_utf8 (c # cs) =
     (case lead_byte c of
        Ascii \<Rightarrow> well_formed_utf8 cs
      | Invalid \<Rightarrow> False
      | Lead k lo hi \<Rightarrow>
          (case cs of
             [] \<Rightarrow> False
           | c1 # r1 \<Rightarrow>
               in_range lo hi c1 \<and>
               (if k = 1 then well_formed_utf8 r1
                else
                  (case r1 of
                     [] \<Rightarrow> False
                   | c2 # r2 \<Rightarrow>
                       in_range 0x80 0xBF c2 \<and>
                       (if k = 2 then well_formed_utf8 r2
                        else
                          (case r2 of
                             [] \<Rightarrow> False
                           | c3 # r3 \<Rightarrow> in_range 0x80 0xBF c3 \<and> well_formed_utf8 r3))))))"

text \<open>
  \<open>Napi::Function::MakeCallback(receiver, args)\<close> calls the JavaScript function. What the
  function does is up to the caller of the addon; the call is recorded in the trace.
\<close>

definition Function_MakeCallback :: "thread \<Rightarrow> jsvalue \<Rightarrow> jsvalue \<Rightarrow> jsvalue list \<Rightarrow> unit cpp" where
  "Function_MakeCallback th f receiver args = emit th (MakeCallback f receiver args)"

text \<open>\<open>Napi::AsyncWorker::Queue()\<close> hands the worker to the thread pool.\<close>

definition Queue :: "worker \<Rightarrow> unit cpp" where
  "Queue w s = (Returns (), s\<lparr>queue := queue s @ [w]\<rparr>)"

subsection \<open>The calls into the backend\<close>

definition DatabaseFactory_create :: "thread \<Rightarrow> backend \<Rightarrow> string \<Rightarrow> DatabaseInterface cpp" where
  "DatabaseFactory_create th be t =
     seq (emit th (Create t)) (\<lambda>_.
       case create_throws be t of
         Some what \<Rightarrow> throws (StdException what)
       | None \<Rightarrow> returns \<lparr>created_as = t, connected_to = None\<rparr>)"

definition connect :: "thread \<Rightarrow> backend \<Rightarrow> DatabaseInterface \<Rightarrow> string \<Rightarrow> string \<Rightarrow> string \<Rightarrow> string
    \<Rightarrow> DatabaseInterface cpp" where
  "connect th be inst h d u p =
     seq (emit th (Connect h d u p)) (\<lambda>_.
       case connect_throws be inst h d u p of
         Some what \<Rightarrow> throws (StdException what)
       | None \<Rightarrow> returns (inst\<lparr>connected_to := Some (h, d, u, p)\<rparr>))"

definition retrieveJson :: "thread \<Rightarrow> backend \<Rightarrow> DatabaseInterface \<Rightarrow> string \<Rightarrow> int
    \<Rightarrow> (string \<rightharpoonup> string) \<Rightarrow> string cpp" where
  "retrieveJson th be inst p ts metadata =
     seq (emit th (RetrieveJson p ts metadata)) (\<lambda>_.
       case retrieveJson_gives be inst p ts metadata of
         Inl what \<Rightarrow> throws (StdException what)
       | Inr json \<Rightarrow> returns json)"

subsection \<open>class TObjectAsyncWorker (lines 14 to 63)\<close>

text \<open>
  Every function of the file takes the thread that runs it as its first argument \<open>th\<close>;
  the file itself never changes thread.

  The constructor (lines 17 to 23): the base class keeps the callback and a fresh empty
  object as receiver, the members are initialised, and the body enables thread safety,
  creates the backend for the global \<open>type\<close> and connects it with the four other globals.
\<close>

definition TObjectAsyncWorker :: "thread \<Rightarrow> backend \<Rightarrow> jsvalue \<Rightarrow> string \<Rightarrow> int \<Rightarrow> worker cpp" where
  "TObjectAsyncWorker th be callback path' timestamp' =
     seq (emit th EnableThreadSafety) (\<lambda>_.
     seq (global type) (\<lambda>t.
     seq (DatabaseFactory_create th be t) (\<lambda>inst.
     seq (global host) (\<lambda>h.
     seq (global database) (\<lambda>d.
     seq (global username) (\<lambda>u.
     seq (global password) (\<lambda>p.
     seq (connect th be inst h d u p) (\<lambda>inst'.
     returns \<lparr>Callback = callback, Receiver = JObject [], error_message = [],
       BackendInstance = inst', path = path', output' = [], timestamp = timestamp'\<rparr>))))))))"

text \<open>\<open>Execute\<close> (lines 26 to 30).\<close>

definition Execute :: "thread \<Rightarrow> backend \<Rightarrow> worker \<Rightarrow> worker cpp" where
  "Execute th be w =
     (let metadata = Map.empty
      in seq (retrieveJson th be (BackendInstance w) (path w) (timestamp w) metadata) (\<lambda>json.
         returns (w\<lparr>output' := json\<rparr>)))"

text \<open>\<open>OnOK\<close> (lines 32 to 43) and \<open>OnError\<close> (lines 45 to 56).\<close>

definition OnOK :: "thread \<Rightarrow> worker \<Rightarrow> unit cpp" where
  "OnOK th w =
     Function_MakeCallback th (Callback w) (Receiver w) [JNull, String_New (output' w)]"

definition OnError :: "thread \<Rightarrow> worker \<Rightarrow> jsvalue \<Rightarrow> unit cpp" where
  "OnError th w e = Function_MakeCallback th (Callback w) (Receiver w) [e, JUndefined]"

subsection \<open>InitBackend (lines 67 to 79)\<close>

definition InitBackend :: "bool \<Rightarrow> jsvalue list \<Rightarrow> unit cpp" where
  "InitBackend cpp_exceptions info =
     seq (if Length info < 5 \<and> \<not> IsString (arg info 0)
          then ThrowAsJavaScriptException (TypeError_New ''Invalid argument'')
          else returns ()) (\<lambda>_.
     seq (Utf8Value cpp_exceptions (arg info 0)) (\<lambda>v0.
     seq (assign (\<lambda>s. s\<lparr>type := v0\<rparr>)) (\<lambda>_.
     seq (Utf8Value cpp_exceptions (arg info 1)) (\<lambda>v1.
     seq (assign (\<lambda>s. s\<lparr>host := v1\<rparr>)) (\<lambda>_.
     seq (Utf8Value cpp_exceptions (arg info 2)) (\<lambda>v2.
     seq (assign (\<lambda>s. s\<lparr>database := v2\<rparr>)) (\<lambda>_.
     seq (Utf8Value cpp_exceptions (arg info 3)) (\<lambda>v3.
     seq (assign (\<lambda>s. s\<lparr>username := v3\<rparr>)) (\<lambda>_.
     seq (Utf8Value cpp_exceptions (arg info 4)) (\<lambda>v4.
     assign (\<lambda>s. s\<lparr>password := v4\<rparr>)))))))))))"

subsection \<open>GetObject (lines 82 to 100)\<close>

definition GetObject :: "bool \<Rightarrow> thread \<Rightarrow> backend \<Rightarrow> jsvalue list \<Rightarrow> unit cpp" where
  "GetObject cpp_exceptions th be info =
     (if Length info < 3
      then ThrowAsJavaScriptException (TypeError_New ''Invalid argument count'')
      else if \<not> IsFunction (arg info 2)
      then ThrowAsJavaScriptException (TypeError_New ''Invalid argument types'')
      else
        (let cb = arg info 2
         in seq (Utf8Value cpp_exceptions (arg info 0)) (\<lambda>path'.
            seq (Int64Value cpp_exceptions (arg info 1)) (\<lambda>v.
            let timestamp' = uint64_of_int64 v
            in seq (TObjectAsyncWorker th be cb path' (long_of_uint64 timestamp')) (\<lambda>w.
               Queue w)))))"

subsection \<open>What node-addon-api does around the file's functions\<close>

text \<open>
  A call from JavaScript to an exported function runs the C++ function on the main thread
  inside a wrapper that catches \<open>Napi::Error\<close> and nothing else. When the function has
  returned, a pending exception is thrown to the JavaScript caller. The result of the call
  as JavaScript sees it: it completes, it throws a JavaScript value, or an exception that
  is not a \<open>Napi::Error\<close> has left the addon uncaught.
\<close>

datatype js_result = Completes | JsThrows jsvalue | Uncaught string

definition call_from_js :: "unit cpp \<Rightarrow> state \<Rightarrow> js_result \<times> state" where
  "call_from_js f s =
     (case f s of
        (Throws (NapiError e), s') \<Rightarrow> (JsThrows e, s'\<lparr>pending := None\<rparr>)
      | (Throws (StdException what), s') \<Rightarrow> (Uncaught what, s')
      | (Returns u, s') \<Rightarrow>
          (case pending s' of
             Some e \<Rightarrow> (JsThrows e, s'\<lparr>pending := None\<rparr>)
           | None \<Rightarrow> (Completes, s')))"

text \<open>\<open>Init\<close> (lines 103 to 113) exports \<open>GetObject\<close> as \<open>get\<close> and \<open>InitBackend\<close> as \<open>init\<close>.\<close>

definition init :: "bool \<Rightarrow> jsvalue list \<Rightarrow> state \<Rightarrow> js_result \<times> state" where
  "init cpp_exceptions info = call_from_js (InitBackend cpp_exceptions info)"

definition get :: "bool \<Rightarrow> backend \<Rightarrow> jsvalue list \<Rightarrow> state \<Rightarrow> js_result \<times> state" where
  "get cpp_exceptions be info = call_from_js (GetObject cpp_exceptions MainThread be info)"

text \<open>
  A queued worker is run by \<open>Napi::AsyncWorker\<close>: \<open>OnExecute\<close> calls \<open>Execute\<close> on a thread of
  the pool and, when the addon is compiled with C++ exceptions, catches a
  \<open>std::exception\<close> and keeps its text with \<open>SetError\<close>. \<open>OnWorkComplete\<close> then runs on the
  main thread: it calls \<open>OnOK\<close> when the kept text is empty and \<open>OnError\<close> with a
  JavaScript \<open>Error\<close> of that text otherwise.
\<close>

definition SetError :: "string \<Rightarrow> worker \<Rightarrow> worker" where
  "SetError what w = w\<lparr>error_message := what\<rparr>"

definition OnExecute :: "bool \<Rightarrow> backend \<Rightarrow> worker \<Rightarrow> worker cpp" where
  "OnExecute cpp_exceptions be w s =
     (case Execute WorkerThread be w s of
        (Throws (StdException what), s') \<Rightarrow>
          (if cpp_exceptions then (Returns (SetError what w), s')
           else (Throws (StdException what), s'))
      | r \<Rightarrow> r)"

definition OnWorkComplete :: "worker \<Rightarrow> unit cpp" where
  "OnWorkComplete w =
     (if error_message w = [] then OnOK MainThread w
      else OnError MainThread w (JError Error (error_message w)))"

definition run_worker :: "bool \<Rightarrow> backend \<Rightarrow> worker \<Rightarrow> unit cpp" where
  "run_worker cpp_exceptions be w = seq (OnExecute cpp_exceptions be w) OnWorkComplete"

text \<open>The state when the addon is loaded: the five strings are empty.\<close>

definition loaded :: state where
  "loaded = \<lparr>type = [], host = [], database = [], username = [], password = [],
     pending = None, queue = [], trace = []\<rparr>"

text \<open>
  The specification names the error of a malformed call \<open>InvalidArgument\<close>: a call with the
  wrong number or the wrong type of arguments, answered by an error that is thrown before
  the call returns. In JavaScript that error is a \<open>TypeError\<close>. The file raises three of
  its own (lines 71, 85 and 90); node-addon-api raises the others, when a conversion meets
  an argument of the wrong type.
\<close>

fun InvalidArgument :: "jsvalue \<Rightarrow> bool" where
  "InvalidArgument (JError TypeError message) = True"
| "InvalidArgument v = False"

fun raised_by_file :: "jsvalue \<Rightarrow> bool" where
  "raised_by_file (JError TypeError message) =
     (message = ''Invalid argument'' \<or> message = ''Invalid argument count''
       \<or> message = ''Invalid argument types'')"
| "raised_by_file v = False"

subsection \<open>Example environments\<close>

text \<open>A state in which an earlier \<open>init\<close> has stored a configuration.\<close>

definition configured :: state where
  "configured = \<lparr>type = ''CCDB'', host = ''ccdb.cern.ch'', database = ''qc'',
     username = ''reader'', password = ''secret'', pending = None, queue = [], trace = []\<rparr>"

text \<open>
  Backends: one that always succeeds, one whose \<open>connect\<close> throws, one whose
  \<open>retrieveJson\<close> throws, one whose \<open>create\<close> throws, one whose \<open>retrieveJson\<close> throws an
  exception with an empty \<open>what()\<close>, and one whose \<open>retrieveJson\<close> returns the three bytes
  7B FF 7D, which are not UTF-8.
\<close>

definition backend_ok :: backend where
  "backend_ok = \<lparr>create_throws = (\<lambda>t. None), connect_throws = (\<lambda>inst h d u p. None),
     retrieveJson_gives = (\<lambda>inst p ts metadata. Inr ''{}'')\<rparr>"

definition backend_refusing :: backend where
  "backend_refusing = \<lparr>create_throws = (\<lambda>t. None),
     connect_throws = (\<lambda>inst h d u p. Some ''connection refused''),
     retrieveJson_gives = (\<lambda>inst p ts metadata. Inr ''{}'')\<rparr>"

definition backend_not_found :: backend where
  "backend_not_found = \<lparr>create_throws = (\<lambda>t. None), connect_throws = (\<lambda>inst h d u p. None),
     retrieveJson_gives = (\<lambda>inst p ts metadata. Inl ''object not found'')\<rparr>"

definition backend_no_factory :: backend where
  "backend_no_factory = \<lparr>create_throws = (\<lambda>t. Some ''unknown database type''),
     connect_throws = (\<lambda>inst h d u p. None),
     retrieveJson_gives = (\<lambda>inst p ts metadata. Inr ''{}'')\<rparr>"


definition not_utf8 :: string where
  "not_utf8 = [CHR ''{'', CHR 0xFF, CHR ''}'']"

definition backend_latin1 :: backend where
  "backend_latin1 = \<lparr>create_throws = (\<lambda>t. None), connect_throws = (\<lambda>inst h d u p. None),
     retrieveJson_gives = (\<lambda>inst p ts metadata. Inr not_utf8)\<rparr>"

text \<open>The call \<open>get("qc/TEST/obj1", 1000, f)\<close> and the worker it queues in \<open>configured\<close>.\<close>

definition example_call :: "jsvalue list" where
  "example_call = [JString ''qc/TEST/obj1'', JNumber (Finite 1000), JFunction 0]"

definition example_worker :: worker where
  "example_worker = \<lparr>Callback = JFunction 0, Receiver = JObject [], error_message = [],
     BackendInstance = \<lparr>created_as = ''CCDB'',
       connected_to = Some (''ccdb.cern.ch'', ''qc'', ''reader'', ''secret'')\<rparr>,
     path = ''qc/TEST/obj1'', output' = [], timestamp = 1000\<rparr>"




text \<open>The call \<open>init("MySql", "localhost", "quality", "alice")\<close>: the password is missing.\<close>

definition four_strings :: "jsvalue list" where
  "four_strings = [JString ''MySql'', JString ''localhost'', JString ''quality'', JString ''alice'']"

text \<open>The call \<open>init(7, "localhost", "quality", "alice", "pw")\<close>: the type is a number.\<close>

definition number_first :: "jsvalue list" where
  "number_first = [JNumber (Finite 7), JString ''localhost'', JString ''quality'',
     JString ''alice'', JString ''pw'']"

text \<open>
  The call \<open>init("MySql", "localhost", "quality", "alice", "pw")\<close> and the state it leaves
  when it is made in \<open>configured\<close>.
\<close>

definition five_strings :: "jsvalue list" where
  "five_strings = [JString ''MySql'', JString ''localhost'', JString ''quality'',
     JString ''alice'', JString ''pw'']"

definition reconfigured :: state where
  "reconfigured = \<lparr>type = ''MySql'', host = ''localhost'', database = ''quality'',
     username = ''alice'', password = ''pw'', pending = None, queue = [], trace = []\<rparr>"

section \<open>Properties\<close>

subsection \<open>The building blocks\<close>

lemmas cpp_defs = seq_def returns_def throws_def emit_def global_def assign_def
  ThrowAsJavaScriptException_def TypeError_New_def Error_New_def NAPI_THROW_IF_FAILED_def

lemma Utf8Value_JString: "Utf8Value ex (JString x) s = (Returns x, s)"
  by (simp add: Utf8Value_def returns_def)

lemma Utf8Value_if:
  "Utf8Value ex v s =
     (if IsString v then (Returns (case v of JString x \<Rightarrow> x | _ \<Rightarrow> []), s)
      else if ex
      then (Throws (NapiError (case pending s of Some e \<Rightarrow> e
              | None \<Rightarrow> JError TypeError ''A string was expected'')), s\<lparr>pending := None\<rparr>)
      else (Returns [], s\<lparr>pending := Some (case pending s of Some e \<Rightarrow> e
              | None \<Rightarrow> JError TypeError ''A string was expected'')\<rparr>))"
  by (cases v) (auto simp add: Utf8Value_def cpp_defs split: option.splits)

lemma Int64Value_JNumber: "Int64Value ex (JNumber n) s = (Returns (double_to_int64 n), s)"
  by (simp add: Int64Value_def returns_def)

lemma Utf8Value_queue: "Utf8Value ex v s = (r, s1) \<Longrightarrow> queue s1 = queue s"
  by (cases v) (auto simp add: Utf8Value_def cpp_defs split: option.splits if_splits)

lemma Int64Value_queue: "Int64Value ex v s = (r, s1) \<Longrightarrow> queue s1 = queue s"
  by (cases v) (auto simp add: Int64Value_def cpp_defs split: option.splits if_splits)

text \<open>The constructor: what it returns when the backend accepts, and when it throws.\<close>

lemma TObjectAsyncWorker_connected:
  assumes "create_throws be (type s) = None"
    and "connect_throws be \<lparr>created_as = type s, connected_to = None\<rparr>
           (host s) (database s) (username s) (password s) = None"
  shows "TObjectAsyncWorker th be cb p ts s =
     (Returns \<lparr>Callback = cb, Receiver = JObject [], error_message = [],
        BackendInstance = \<lparr>created_as = type s,
          connected_to = Some (host s, database s, username s, password s)\<rparr>,
        path = p, output' = [], timestamp = ts\<rparr>,
      s\<lparr>trace := trace s @ [(th, EnableThreadSafety), (th, Create (type s)),
        (th, Connect (host s) (database s) (username s) (password s))]\<rparr>)"
  using assms
  by (simp add: TObjectAsyncWorker_def DatabaseFactory_create_def connect_def cpp_defs)

lemma TObjectAsyncWorker_connect_throws:
  assumes "create_throws be (type s) = None"
    and "connect_throws be \<lparr>created_as = type s, connected_to = None\<rparr>
           (host s) (database s) (username s) (password s) = Some what"
  shows "TObjectAsyncWorker th be cb p ts s =
     (Throws (StdException what),
      s\<lparr>trace := trace s @ [(th, EnableThreadSafety), (th, Create (type s)),
        (th, Connect (host s) (database s) (username s) (password s))]\<rparr>)"
  using assms
  by (simp add: TObjectAsyncWorker_def DatabaseFactory_create_def connect_def cpp_defs)

lemma TObjectAsyncWorker_create_throws:
  assumes "create_throws be (type s) = Some what"
  shows "TObjectAsyncWorker th be cb p ts s =
     (Throws (StdException what),
      s\<lparr>trace := trace s @ [(th, EnableThreadSafety), (th, Create (type s))]\<rparr>)"
  using assms
  by (simp add: TObjectAsyncWorker_def DatabaseFactory_create_def cpp_defs)

lemma TObjectAsyncWorker_cases:
  "TObjectAsyncWorker th be cb p ts s = (r, s1) \<Longrightarrow>
     queue s1 = queue s \<and>
     (case r of Throws e \<Rightarrow> True
      | Returns w \<Rightarrow> error_message w = [] \<and> Callback w = cb \<and> Receiver w = JObject []
          \<and> output' w = [] \<and> path w = p \<and> timestamp w = ts)"
  by (auto simp add: TObjectAsyncWorker_def DatabaseFactory_create_def connect_def cpp_defs
      split: option.splits)

text \<open>
  A call of \<open>get\<close> with a string, a number and a function, on a backend that accepts the
  connection: the three backend calls of the constructor happen on the main thread, and
  one worker is queued.
\<close>

lemma get_queues:
  assumes "pending s = None"
    and "create_throws be (type s) = None"
    and "connect_throws be \<lparr>created_as = type s, connected_to = None\<rparr>
           (host s) (database s) (username s) (password s) = None"
  shows "get ex be (JString p # JNumber n # JFunction f # rest) s =
     (Completes,
      s\<lparr>trace := trace s @ [(MainThread, EnableThreadSafety), (MainThread, Create (type s)),
           (MainThread, Connect (host s) (database s) (username s) (password s))],
        queue := queue s @
          [\<lparr>Callback = JFunction f, Receiver = JObject [], error_message = [],
            BackendInstance = \<lparr>created_as = type s,
              connected_to = Some (host s, database s, username s, password s)\<rparr>,
            path = p, output' = [],
            timestamp = long_of_uint64 (uint64_of_int64 (double_to_int64 n))\<rparr>]\<rparr>)"
  using assms
  by (simp add: get_def call_from_js_def GetObject_def Length_def arg_def Utf8Value_JString
      Int64Value_JNumber TObjectAsyncWorker_connected Queue_def seq_def Let_def)

lemma get_connect_throws:
  assumes "create_throws be (type s) = None"
    and "connect_throws be \<lparr>created_as = type s, connected_to = None\<rparr>
           (host s) (database s) (username s) (password s) = Some what"
  shows "get ex be (JString p # JNumber n # JFunction f # rest) s =
     (Uncaught what,
      s\<lparr>trace := trace s @ [(MainThread, EnableThreadSafety), (MainThread, Create (type s)),
           (MainThread, Connect (host s) (database s) (username s) (password s))]\<rparr>)"
  using assms
  by (simp add: get_def call_from_js_def GetObject_def Length_def arg_def Utf8Value_JString
      Int64Value_JNumber TObjectAsyncWorker_connect_throws Queue_def seq_def Let_def)

lemma get_create_throws:
  assumes "create_throws be (type s) = Some what"
  shows "get ex be (JString p # JNumber n # JFunction f # rest) s =
     (Uncaught what,
      s\<lparr>trace := trace s @ [(MainThread, EnableThreadSafety), (MainThread, Create (type s))]\<rparr>)"
  using assms
  by (simp add: get_def call_from_js_def GetObject_def Length_def arg_def Utf8Value_JString
      Int64Value_JNumber TObjectAsyncWorker_create_throws Queue_def seq_def Let_def)

text \<open>Running a worker, when \<open>retrieveJson\<close> returns and when it throws.\<close>

lemma run_worker_returns:
  assumes "error_message w = []"
    and "retrieveJson_gives be (BackendInstance w) (path w) (timestamp w) Map.empty = Inr json"
  shows "run_worker ex be w s =
     (Returns (),
      s\<lparr>trace := trace s @ [(WorkerThread, RetrieveJson (path w) (timestamp w) Map.empty),
        (MainThread, MakeCallback (Callback w) (Receiver w) [JNull, String_New json])]\<rparr>)"
  using assms
  by (simp add: run_worker_def OnExecute_def Execute_def retrieveJson_def OnWorkComplete_def
      OnOK_def Function_MakeCallback_def cpp_defs)

lemma run_worker_throws:
  assumes "retrieveJson_gives be (BackendInstance w) (path w) (timestamp w) Map.empty = Inl what"
  shows "run_worker ex be w s =
     (if ex then
        (Returns (),
         s\<lparr>trace := trace s @ [(WorkerThread, RetrieveJson (path w) (timestamp w) Map.empty),
           (MainThread, MakeCallback (Callback w) (Receiver w)
              (if what = [] then [JNull, String_New (output' w)]
               else [JError Error what, JUndefined]))]\<rparr>)
      else
        (Throws (StdException what),
         s\<lparr>trace := trace s @ [(WorkerThread, RetrieveJson (path w) (timestamp w) Map.empty)]\<rparr>))"
  using assms
  by (simp add: run_worker_def OnExecute_def Execute_def retrieveJson_def OnWorkComplete_def
      OnOK_def OnError_def SetError_def Function_MakeCallback_def cpp_defs)

text \<open>
  Whatever the arguments: a worker that \<open>get\<close> has queued was built by the constructor, so
  no error is set in it, its output is empty and its callback is the third argument, a
  function.
\<close>

lemma GetObject_queue:
  assumes "GetObject ex th be info s = (r, s1)" and "queue s1 = queue s @ [w]"
  shows "error_message w = [] \<and> Callback w = arg info 2 \<and> IsFunction (arg info 2)
     \<and> Receiver w = JObject [] \<and> output' w = []"
proof -
  from assms have ok: "\<not> Length info < 3" "IsFunction (arg info 2)"
    by (auto simp add: GetObject_def ThrowAsJavaScriptException_def split: if_splits)
  obtain r0 s0 where u: "Utf8Value ex (arg info 0) s = (r0, s0)" by force
  have q0: "queue s0 = queue s" using Utf8Value_queue [OF u] .
  show ?thesis
  proof (cases r0)
    case (Throws e)
    with assms ok u q0 show ?thesis by (auto simp add: GetObject_def seq_def Let_def)
  next
    case (Returns p)
    obtain r1 s1' where i: "Int64Value ex (arg info 1) s0 = (r1, s1')" by force
    have q1: "queue s1' = queue s0" using Int64Value_queue [OF i] .
    show ?thesis
    proof (cases r1)
      case (Throws e)
      with assms ok u Returns i q0 q1 show ?thesis
        by (auto simp add: GetObject_def seq_def Let_def)
    next
      case R1: (Returns v)
      obtain r2 s2 where c: "TObjectAsyncWorker th be (arg info 2) p
          (long_of_uint64 (uint64_of_int64 v)) s1' = (r2, s2)" by force
      note cs = TObjectAsyncWorker_cases [OF c]
      show ?thesis
      proof (cases r2)
        case (Throws e)
        with assms ok u Returns i R1 c cs q0 q1 show ?thesis
          by (auto simp add: GetObject_def seq_def Let_def)
      next
        case R2: (Returns w')
        with assms ok u Returns i R1 c cs q0 q1 show ?thesis
          by (auto simp add: GetObject_def seq_def Let_def Queue_def)
      qed
    qed
  qed
qed

lemma get_queue:
  assumes "queue (snd (get ex be info s)) = queue s @ [w]"
  shows "error_message w = [] \<and> Callback w = arg info 2 \<and> IsFunction (arg info 2)
     \<and> Receiver w = JObject [] \<and> output' w = []"
proof -
  obtain r s1 where g: "GetObject ex MainThread be info s = (r, s1)" by force
  with assms have "queue s1 = queue s @ [w]"
    by (auto simp add: get_def call_from_js_def
        split: outcome.splits cpp_exception.splits option.splits)
  with g show ?thesis by (rule GetObject_queue)
qed

text \<open>The integer conversions between \<open>Int64Value\<close> and the \<open>long\<close> member.\<close>

lemma long_of_uint64_of_int64:
  assumes "INT64_MIN \<le> v" and "v \<le> INT64_MAX"
  shows "long_of_uint64 (uint64_of_int64 v) = v"
proof (cases "0 \<le> v")
  case True
  with assms have "v mod 2 ^ 64 = v" by (simp add: INT64_MAX_def)
  with assms show ?thesis by (simp add: long_of_uint64_def uint64_of_int64_def INT64_MAX_def)
next
  case False
  have "v mod 2 ^ 64 = (v + 2 ^ 64) mod 2 ^ 64" by simp
  also from False assms have "\<dots> = v + 2 ^ 64"
    by (intro mod_pos_pos_trivial) (simp_all add: INT64_MIN_def)
  finally have "v mod 2 ^ 64 = v + 2 ^ 64" .
  with False assms show ?thesis
    by (simp add: long_of_uint64_def uint64_of_int64_def INT64_MIN_def)
qed

lemma double_to_int64_of_int:
  assumes "INT64_MIN \<le> i" and "i \<le> INT64_MAX"
  shows "double_to_int64 (Finite (of_int i)) = i"
  using assms by (simp add: Let_def)


lemma run_worker_trace:
  assumes "error_message w = []"
  shows "\<exists>later. trace (snd (run_worker ex be w s)) =
       trace s @ (WorkerThread, RetrieveJson (path w) (timestamp w) Map.empty) # later
     \<and> (later = [] \<or> (\<exists>args. later = [(MainThread, MakeCallback (Callback w) (Receiver w) args)]))"
proof (cases "retrieveJson_gives be (BackendInstance w) (path w) (timestamp w) Map.empty")
  case (Inl what)
  show ?thesis by (simp add: run_worker_throws [OF Inl])
next
  case (Inr json)
  show ?thesis by (simp add: run_worker_returns [OF assms Inr])
qed

text \<open>
  Decoding keeps a string that is well-formed UTF-8 as it is.
\<close>

lemma utf8_decode_well_formed: "well_formed_utf8 s \<Longrightarrow> utf8_decode s = s"
proof (induction s rule: well_formed_utf8.induct)
  case 1
  show ?case by simp
next
  case (2 c cs)
  show ?case
  proof (cases "lead_byte c")
    case Ascii
    with "2.prems" "2.IH"(1) show ?thesis by simp
  next
    case Invalid
    with "2.prems" show ?thesis by simp
  next
    case (Lead k lo hi)
    show ?thesis
    proof (cases cs)
      case Nil
      with "2.prems" Lead show ?thesis by simp
    next
      case c1: (Cons c1 r1)
      with "2.prems" Lead have i1: "in_range lo hi c1" by simp
      show ?thesis
      proof (cases "k = 1")
        case True
        with "2.prems" Lead c1 i1 have "well_formed_utf8 r1" by simp
        with "2.IH"(2) [OF Lead c1 True] have "utf8_decode r1 = r1" by simp
        with Lead c1 i1 True show ?thesis by simp
      next
        case k1: False
        show ?thesis
        proof (cases r1)
          case Nil
          with "2.prems" Lead c1 k1 show ?thesis by simp
        next
          case c2: (Cons c2 r2)
          with "2.prems" Lead c1 k1 have i2: "in_range 0x80 0xBF c2" by simp
          show ?thesis
          proof (cases "k = 2")
            case True
            with "2.prems" Lead c1 i1 k1 c2 i2 have "well_formed_utf8 r2" by simp
            with "2.IH"(3) [OF Lead c1 k1 c2 True] have "utf8_decode r2 = r2" by simp
            with Lead c1 i1 k1 c2 i2 True show ?thesis by simp
          next
            case k2: False
            show ?thesis
            proof (cases r2)
              case Nil
              with "2.prems" Lead c1 k1 c2 k2 show ?thesis by simp
            next
              case c3: (Cons c3 r3)
              with "2.prems" Lead c1 k1 c2 k2 have i3: "in_range 0x80 0xBF c3"
                and w: "well_formed_utf8 r3" by simp_all
              from "2.IH"(4) [OF Lead c1 k1 c2 k2 c3] w have "utf8_decode r3 = r3" by simp
              with Lead c1 i1 k1 c2 i2 k2 c3 i3 show ?thesis by simp
            qed
          qed
        qed
      qed
    qed
  qed
qed

lemma String_New_well_formed: "well_formed_utf8 s \<Longrightarrow> String_New s = JString s"
  by (simp add: String_New_def utf8_decode_well_formed)



lemma String_New_not_utf8:
  "String_New not_utf8 = JString [CHR ''{'', CHR 0xEF, CHR 0xBF, CHR 0xBD, CHR ''}'']"
  by (simp add: String_New_def not_utf8_def lead_byte_def U_FFFD_def)

text \<open>The example call and the example worker.\<close>

lemma example_timestamp:
  "long_of_uint64 (uint64_of_int64 (double_to_int64 (Finite 1000))) = 1000"
  by (simp add: long_of_uint64_def uint64_of_int64_def INT64_MIN_def INT64_MAX_def Let_def)

lemma get_example:
  assumes "create_throws be ''CCDB'' = None"
    and "connect_throws be \<lparr>created_as = ''CCDB'', connected_to = None\<rparr>
           ''ccdb.cern.ch'' ''qc'' ''reader'' ''secret'' = None"
  shows "get ex be example_call configured =
     (Completes,
      configured\<lparr>trace := [(MainThread, EnableThreadSafety), (MainThread, Create ''CCDB''),
          (MainThread, Connect ''ccdb.cern.ch'' ''qc'' ''reader'' ''secret'')],
        queue := [example_worker]\<rparr>)"
proof -
  have c: "pending configured = None" "create_throws be (type configured) = None"
    "connect_throws be \<lparr>created_as = type configured, connected_to = None\<rparr>
      (host configured) (database configured) (username configured) (password configured) = None"
    using assms by (simp_all add: configured_def)
  show ?thesis
    unfolding example_call_def
    by (simp add: get_queues [OF c] example_timestamp del: double_to_int64.simps)
      (simp add: example_worker_def configured_def)
qed







subsection \<open>Argument validation of get\<close>

text \<open>
  C5. A call of \<open>get\<close> with fewer than three arguments, or with a third argument that is not
  a function, throws an \<open>InvalidArgument\<close> error to the caller before the call returns: the
  \<open>TypeError\<close> of line 85 or of line 90. It leaves the state as it was: nothing is added to
  the queue, and the trace shows that the constructor of the worker has not run.
\<close>

theorem get_rejects_malformed_call:
  assumes "Length info < 3 \<or> \<not> IsFunction (arg info 2)"
    and "pending s = None"
    and "e = TypeError_New (if Length info < 3 then ''Invalid argument count''
                            else ''Invalid argument types'')"
  shows "get ex be info s = (JsThrows e, s) \<and> InvalidArgument e \<and> raised_by_file e"
proof (cases "Length info < 3")
  case True
  with assms(2,3) show ?thesis
    by (simp add: get_def call_from_js_def GetObject_def ThrowAsJavaScriptException_def
        TypeError_New_def)
next
  case False
  with assms show ?thesis
    by (simp add: get_def call_from_js_def GetObject_def ThrowAsJavaScriptException_def
        TypeError_New_def)
qed

theorem get_rejects_malformed_call_witness:
  "\<not> IsFunction (arg [JString ''qc/TEST/obj1'', JNumber (Finite 1000), JString ''callback''] 2)
   \<and> pending configured = None
   \<and> get True backend_ok [JString ''qc/TEST/obj1'', JNumber (Finite 1000), JString ''callback'']
        configured = (JsThrows (JError TypeError ''Invalid argument types''), configured)
   \<and> get True backend_ok [JString ''qc/TEST/obj1'', JNumber (Finite 1000)]
        configured = (JsThrows (JError TypeError ''Invalid argument count''), configured)
   \<and> InvalidArgument (JError TypeError ''Invalid argument types'')
   \<and> InvalidArgument (JError TypeError ''Invalid argument count'')"
proof -
  have h0: "\<not> IsFunction (arg [JString ''qc/TEST/obj1'', JNumber (Finite 1000), JString ''callback''] 2)"
    by (simp add: arg_def)
  then have h1: "Length [JString ''qc/TEST/obj1'', JNumber (Finite 1000), JString ''callback''] < 3
      \<or> \<not> IsFunction (arg [JString ''qc/TEST/obj1'', JNumber (Finite 1000), JString ''callback''] 2)"
    by (rule disjI2)
  have k1: "Length [JString ''qc/TEST/obj1'', JNumber (Finite 1000)] < 3
      \<or> \<not> IsFunction (arg [JString ''qc/TEST/obj1'', JNumber (Finite 1000)] 2)"
    by (simp add: Length_def)
  have h2: "pending configured = None"
    by (simp add: configured_def)
  have e1: "JError TypeError ''Invalid argument types'' =
      TypeError_New (if Length [JString ''qc/TEST/obj1'', JNumber (Finite 1000), JString ''callback''] < 3
        then ''Invalid argument count'' else ''Invalid argument types'')"
    by (simp add: TypeError_New_def Length_def)
  have e2: "JError TypeError ''Invalid argument count'' =
      TypeError_New (if Length [JString ''qc/TEST/obj1'', JNumber (Finite 1000)] < 3
        then ''Invalid argument count'' else ''Invalid argument types'')"
    by (simp add: TypeError_New_def Length_def)
  from h0 h2 get_rejects_malformed_call [OF h1 h2 e1, of True backend_ok]
    get_rejects_malformed_call [OF k1 h2 e2, of True backend_ok]
  show ?thesis by blast
qed




subsection \<open>Argument validation of init\<close>

text \<open>
  The guard of line 70 joins its two tests with \<open>&&\<close>, and line 71 is not followed by a
  \<open>return\<close>. So the file's own error is raised exactly when both tests fail.
\<close>

lemma init_raises_own_error_iff:
  assumes "pending s = None"
  shows "(fst (init ex info s) = JsThrows (TypeError_New ''Invalid argument''))
     = (Length info < 5 \<and> \<not> IsString (arg info 0))"
  using assms
  by (simp add: init_def call_from_js_def InitBackend_def Utf8Value_if seq_def returns_def
      assign_def ThrowAsJavaScriptException_def TypeError_New_def)

text \<open>
  C1. A call of \<open>init\<close> with fewer than five arguments, or with a first argument that is not
  a string, throws an \<open>InvalidArgument\<close> error to the caller before the call returns; each
  of the two conditions is enough. The error is the \<open>TypeError\<close> of line 71 when both
  conditions hold, and otherwise the \<open>TypeError\<close> that node-addon-api raises when an
  assignment of lines 74 to 78 converts an argument that is missing or not a string.
\<close>

theorem init_rejects_malformed_call:
  assumes "Length info < 5 \<or> \<not> IsString (arg info 0)"
    and "pending s = None"
  shows "\<exists>e s1. init ex info s = (JsThrows e, s1) \<and> InvalidArgument e
     \<and> (e = TypeError_New ''Invalid argument'' \<or> e = JError TypeError ''A string was expected'')"
proof -
  have u: "\<not> IsString (arg info 4)" if "Length info < 5"
    using that by (simp add: Length_def arg_def)
  from assms u
  have "fst (init ex info s) = JsThrows (JError TypeError ''Invalid argument'')
     \<or> fst (init ex info s) = JsThrows (JError TypeError ''A string was expected'')"
    by (auto simp add: init_def call_from_js_def InitBackend_def Utf8Value_if seq_def
        returns_def assign_def ThrowAsJavaScriptException_def TypeError_New_def)
  then show ?thesis
    by (cases "init ex info s") (auto simp add: TypeError_New_def)
qed

theorem init_rejects_malformed_call_witness:
  "Length four_strings < 5 \<and> IsString (arg four_strings 0)
   \<and> \<not> Length number_first < 5 \<and> \<not> IsString (arg number_first 0)
   \<and> pending configured = None
   \<and> (\<exists>e s1. init True four_strings configured = (JsThrows e, s1) \<and> InvalidArgument e
        \<and> (e = TypeError_New ''Invalid argument'' \<or> e = JError TypeError ''A string was expected''))
   \<and> (\<exists>e s1. init True number_first configured = (JsThrows e, s1) \<and> InvalidArgument e
        \<and> (e = TypeError_New ''Invalid argument'' \<or> e = JError TypeError ''A string was expected''))"
proof -
  have a: "Length four_strings < 5" "IsString (arg four_strings 0)"
    by (simp_all add: four_strings_def Length_def arg_def)
  have b: "\<not> Length number_first < 5" "\<not> IsString (arg number_first 0)"
    by (simp_all add: number_first_def Length_def arg_def)
  have p: "pending configured = None" by (simp add: configured_def)
  from a(1) have h1: "Length four_strings < 5 \<or> \<not> IsString (arg four_strings 0)"
    by (rule disjI1)
  from b(2) have h2: "Length number_first < 5 \<or> \<not> IsString (arg number_first 0)"
    by (rule disjI2)
  from a b p init_rejects_malformed_call [OF h1 p, of True]
    init_rejects_malformed_call [OF h2 p, of True]
  show ?thesis by blast
qed

text \<open>
  C2. The specification says that a malformed call of \<open>init\<close> leaves the five strings
  unchanged. In the file \<open>init("MySql", "localhost", "quality", "alice")\<close>, made in
  \<open>configured\<close>, throws only when it converts the missing fifth argument: by then the
  type, the host, the
  database and the user name have been overwritten (and without C++ exceptions the
  password is emptied). When the guard of line 70 does fire, as for \<open>init()\<close>, the
  assignments are still reached, line 71 having no \<open>return\<close>: with C++ exceptions the first
  conversion throws and the strings are unchanged, without them all five are emptied.
\<close>

theorem init_overwrites_before_failing:
  "init True four_strings configured =
     (JsThrows (JError TypeError ''A string was expected''),
      \<lparr>type = ''MySql'', host = ''localhost'', database = ''quality'', username = ''alice'',
       password = ''secret'', pending = None, queue = [], trace = []\<rparr>)
   \<and> init False four_strings configured =
     (JsThrows (JError TypeError ''A string was expected''),
      \<lparr>type = ''MySql'', host = ''localhost'', database = ''quality'', username = ''alice'',
       password = [], pending = None, queue = [], trace = []\<rparr>)
   \<and> init True [] configured = (JsThrows (JError TypeError ''Invalid argument''), configured)
   \<and> init False [] configured =
     (JsThrows (JError TypeError ''Invalid argument''),
      \<lparr>type = [], host = [], database = [], username = [], password = [],
       pending = None, queue = [], trace = []\<rparr>)"
  by (simp add: init_def call_from_js_def InitBackend_def Length_def arg_def Utf8Value_def
      cpp_defs configured_def four_strings_def)

subsection \<open>Configuration\<close>

text \<open>
  C8. A call of \<open>init\<close> whose first five arguments are strings completes and stores these
  five strings, whatever was stored before. A worker that \<open>get\<close> constructs afterwards
  creates the backend for the new type and connects it with the new host, database, user
  name and password.
\<close>

theorem init_overwrites_configuration:
  assumes "pending s = None"
    and "create_throws be t = None"
    and "connect_throws be \<lparr>created_as = t, connected_to = None\<rparr> h d u pw = None"
    and "s1 = s\<lparr>type := t, host := h, database := d, username := u, password := pw\<rparr>"
  shows "init ex (JString t # JString h # JString d # JString u # JString pw # others) s
       = (Completes, s1)
     \<and> get ex be (JString p # JNumber n # JFunction f # rest) s1 =
       (Completes,
        s1\<lparr>trace := trace s @ [(MainThread, EnableThreadSafety), (MainThread, Create t),
             (MainThread, Connect h d u pw)],
          queue := queue s @
            [\<lparr>Callback = JFunction f, Receiver = JObject [], error_message = [],
              BackendInstance = \<lparr>created_as = t, connected_to = Some (h, d, u, pw)\<rparr>,
              path = p, output' = [],
              timestamp = long_of_uint64 (uint64_of_int64 (double_to_int64 n))\<rparr>]\<rparr>)"
proof
  from assms(1,4)
  show "init ex (JString t # JString h # JString d # JString u # JString pw # others) s
       = (Completes, s1)"
    by (simp add: init_def call_from_js_def InitBackend_def Length_def arg_def
        Utf8Value_JString seq_def returns_def assign_def)
next
  from assms have c: "pending s1 = None" "create_throws be (type s1) = None"
    "connect_throws be \<lparr>created_as = type s1, connected_to = None\<rparr>
      (host s1) (database s1) (username s1) (password s1) = None"
    by simp_all
  from assms(4) have f: "type s1 = t" "host s1 = h" "database s1 = d" "username s1 = u"
    "password s1 = pw" "trace s1 = trace s" "queue s1 = queue s"
    by simp_all
  from get_queues [OF c, of ex p n f rest]
  show "get ex be (JString p # JNumber n # JFunction f # rest) s1 =
       (Completes,
        s1\<lparr>trace := trace s @ [(MainThread, EnableThreadSafety), (MainThread, Create t),
             (MainThread, Connect h d u pw)],
          queue := queue s @
            [\<lparr>Callback = JFunction f, Receiver = JObject [], error_message = [],
              BackendInstance = \<lparr>created_as = t, connected_to = Some (h, d, u, pw)\<rparr>,
              path = p, output' = [],
              timestamp = long_of_uint64 (uint64_of_int64 (double_to_int64 n))\<rparr>]\<rparr>)"
    by (simp only: f)
qed

theorem init_overwrites_configuration_witness:
  "init True five_strings configured = (Completes, reconfigured)
   \<and> get True backend_ok example_call reconfigured =
       (Completes,
        reconfigured\<lparr>trace := [(MainThread, EnableThreadSafety), (MainThread, Create ''MySql''),
            (MainThread, Connect ''localhost'' ''quality'' ''alice'' ''pw'')],
          queue := [\<lparr>Callback = JFunction 0, Receiver = JObject [], error_message = [],
            BackendInstance = \<lparr>created_as = ''MySql'',
              connected_to = Some (''localhost'', ''quality'', ''alice'', ''pw'')\<rparr>,
            path = ''qc/TEST/obj1'', output' = [], timestamp = 1000\<rparr>]\<rparr>)"
proof -
  have h1: "pending configured = None" by (simp add: configured_def)
  have h2: "create_throws backend_ok ''MySql'' = None" by (simp add: backend_ok_def)
  have h3: "connect_throws backend_ok \<lparr>created_as = ''MySql'', connected_to = None\<rparr>
      ''localhost'' ''quality'' ''alice'' ''pw'' = None" by (simp add: backend_ok_def)
  have h4: "reconfigured = configured\<lparr>type := ''MySql'', host := ''localhost'',
      database := ''quality'', username := ''alice'', password := ''pw''\<rparr>"
    by (simp add: reconfigured_def configured_def)
  from init_overwrites_configuration [OF h1 h2 h3 h4, of True "[]" "''qc/TEST/obj1''"
      "Finite 1000" 0 "[]"]
  show ?thesis
    by (simp add: five_strings_def example_call_def example_timestamp configured_def
        del: double_to_int64.simps)
qed

subsection \<open>The worker\<close>

text \<open>
  C7, as stated, fails. \<open>OnOK\<close> builds the JavaScript string with \<open>Napi::String::New\<close>, which
  decodes the bytes of \<open>output\<close> as UTF-8. When \<open>retrieveJson\<close> returns the bytes 7B FF 7D,
  the continuation receives the string whose UTF-8 encoding is 7B EF BF BD 7D: the byte
  FF has become U+FFFD.
\<close>

theorem invalid_bytes_are_replaced:
  "queue (snd (get True backend_latin1 example_call configured)) = [example_worker]
   \<and> retrieveJson_gives backend_latin1 (BackendInstance example_worker) ''qc/TEST/obj1'' 1000
        Map.empty = Inr [CHR ''{'', CHR 0xFF, CHR ''}'']
   \<and> run_worker True backend_latin1 example_worker configured =
     (Returns (),
      configured\<lparr>trace := [(WorkerThread, RetrieveJson ''qc/TEST/obj1'' 1000 Map.empty),
        (MainThread, MakeCallback (JFunction 0) (JObject [])
           [JNull, JString [CHR ''{'', CHR 0xEF, CHR 0xBF, CHR 0xBD, CHR ''}'']])]\<rparr>)
   \<and> [CHR ''{'', CHR 0xEF, CHR 0xBF, CHR 0xBD, CHR ''}''] \<noteq> [CHR ''{'', CHR 0xFF, CHR ''}'']"
proof -
  have c: "create_throws backend_latin1 ''CCDB'' = None"
    "connect_throws backend_latin1 \<lparr>created_as = ''CCDB'', connected_to = None\<rparr>
       ''ccdb.cern.ch'' ''qc'' ''reader'' ''secret'' = None"
    by (simp_all add: backend_latin1_def)
  have e: "error_message example_worker = []" by (simp add: example_worker_def)
  have r: "retrieveJson_gives backend_latin1 (BackendInstance example_worker)
      (path example_worker) (timestamp example_worker) Map.empty = Inr not_utf8"
    by (simp add: backend_latin1_def)
  show ?thesis
    by (simp add: get_example [OF c] run_worker_returns [OF e r] String_New_not_utf8)
      (simp add: example_worker_def configured_def backend_latin1_def not_utf8_def)
qed

text \<open>
  C7, amended. When \<open>retrieveJson\<close> returns, the worker has called it with the empty
  metadata map, and the continuation receives \<open>null\<close> and the returned bytes decoded as
  UTF-8; when the returned string is well-formed UTF-8, that is the very string that
  \<open>retrieveJson\<close> returned. This holds for every worker that a call of \<open>get\<close> has queued.
\<close>

theorem json_is_passed_verbatim:
  assumes "queue (snd (get ex be info s)) = queue s @ [w]"
    and "retrieveJson_gives be (BackendInstance w) (path w) (timestamp w) Map.empty = Inr json"
  shows "run_worker ex be w s2 =
       (Returns (),
        s2\<lparr>trace := trace s2 @ [(WorkerThread, RetrieveJson (path w) (timestamp w) Map.empty),
          (MainThread, MakeCallback (arg info 2) (JObject []) [JNull, String_New json])]\<rparr>)
     \<and> (well_formed_utf8 json \<longrightarrow> String_New json = JString json)"
proof -
  from get_queue [OF assms(1)]
  have w: "error_message w = []" "Callback w = arg info 2" "Receiver w = JObject []"
    by simp_all
  from run_worker_returns [OF w(1) assms(2), of ex s2] w(2,3) String_New_well_formed [of json]
  show ?thesis by simp
qed

theorem json_is_passed_verbatim_witness:
  "queue (snd (get True backend_ok example_call configured)) = queue configured @ [example_worker]
   \<and> retrieveJson_gives backend_ok (BackendInstance example_worker) (path example_worker)
        (timestamp example_worker) Map.empty = Inr ''{}''
   \<and> well_formed_utf8 ''{}''
   \<and> run_worker True backend_ok example_worker configured =
       (Returns (),
        configured\<lparr>trace := [(WorkerThread, RetrieveJson ''qc/TEST/obj1'' 1000 Map.empty),
          (MainThread, MakeCallback (JFunction 0) (JObject []) [JNull, JString ''{}''])]\<rparr>)"
proof -
  have c: "create_throws backend_ok ''CCDB'' = None"
    "connect_throws backend_ok \<lparr>created_as = ''CCDB'', connected_to = None\<rparr>
       ''ccdb.cern.ch'' ''qc'' ''reader'' ''secret'' = None"
    by (simp_all add: backend_ok_def)
  have h1: "queue (snd (get True backend_ok example_call configured))
      = queue configured @ [example_worker]"
    by (simp add: get_example [OF c]) (simp add: configured_def)
  have h2: "retrieveJson_gives backend_ok (BackendInstance example_worker)
      (path example_worker) (timestamp example_worker) Map.empty = Inr ''{}''"
    by (simp add: backend_ok_def)
  have h3: "well_formed_utf8 ''{}''" by (simp add: lead_byte_def)
  have a: "arg example_call 2 = JFunction 0" by (simp add: example_call_def arg_def)
  have f: "path example_worker = ''qc/TEST/obj1''" "timestamp example_worker = 1000"
    "trace configured = []"
    by (simp_all add: example_worker_def configured_def)
  from json_is_passed_verbatim [OF h1 h2, of configured] h3
  have "run_worker True backend_ok example_worker configured =
       (Returns (),
        configured\<lparr>trace := [(WorkerThread, RetrieveJson ''qc/TEST/obj1'' 1000 Map.empty),
          (MainThread, MakeCallback (JFunction 0) (JObject []) [JNull, JString ''{}''])]\<rparr>)"
    by (simp add: a f)
  with h1 h2 h3 show ?thesis by blast
qed

text \<open>
  C9. A timestamp that is an integer in the range of \<open>int64_t\<close> reaches \<open>retrieveJson\<close>
  with the same value: \<open>Int64Value\<close>, the conversion to \<open>uint64_t\<close> in \<open>GetObject\<close> and the
  conversion to \<open>long\<close> at the constructor do not change it.
\<close>

theorem timestamp_reaches_backend_unchanged:
  assumes "INT64_MIN \<le> i" and "i \<le> INT64_MAX"
    and "pending s = None"
    and "create_throws be (type s) = None"
    and "connect_throws be \<lparr>created_as = type s, connected_to = None\<rparr>
           (host s) (database s) (username s) (password s) = None"
  shows "\<exists>w s1. get ex be (JString p # JNumber (Finite (of_int i)) # JFunction f # rest) s
         = (Completes, s1)
     \<and> queue s1 = queue s @ [w] \<and> timestamp w = i
     \<and> (\<exists>later. trace (snd (run_worker ex be w s2)) =
           trace s2 @ (WorkerThread, RetrieveJson p i Map.empty) # later)"
proof -
  have ts: "long_of_uint64 (uint64_of_int64 (double_to_int64 (Finite (of_int i)))) = i"
    using assms(1,2) by (simp only: double_to_int64_of_int long_of_uint64_of_int64)
  let ?w = "\<lparr>Callback = JFunction f, Receiver = JObject [], error_message = [],
      BackendInstance = \<lparr>created_as = type s,
        connected_to = Some (host s, database s, username s, password s)\<rparr>,
      path = p, output' = [], timestamp = i\<rparr>"
  have g: "get ex be (JString p # JNumber (Finite (of_int i)) # JFunction f # rest) s =
     (Completes,
      s\<lparr>trace := trace s @ [(MainThread, EnableThreadSafety), (MainThread, Create (type s)),
           (MainThread, Connect (host s) (database s) (username s) (password s))],
        queue := queue s @ [?w]\<rparr>)"
    by (simp only: get_queues [OF assms(3,4,5)] ts)
  have "error_message ?w = []" by simp
  from run_worker_trace [OF this, of ex be s2]
  have r: "\<exists>later. trace (snd (run_worker ex be ?w s2)) =
       trace s2 @ (WorkerThread, RetrieveJson p i Map.empty) # later"
    by auto
  from g r show ?thesis by (intro exI [of _ ?w] exI) auto
qed

theorem timestamp_reaches_backend_unchanged_witness:
  "INT64_MIN \<le> - 1 \<and> - 1 \<le> INT64_MAX \<and> uint64_of_int64 (- 1) = 18446744073709551615
   \<and> (\<exists>w s1. get True backend_ok
          [JString ''qc/TEST/obj1'', JNumber (Finite (of_int (- 1))), JFunction 0] configured
         = (Completes, s1)
     \<and> queue s1 = queue configured @ [w] \<and> timestamp w = - 1
     \<and> (\<exists>later. trace (snd (run_worker True backend_ok w configured)) =
           trace configured @ (WorkerThread, RetrieveJson ''qc/TEST/obj1'' (- 1) Map.empty) # later))"
proof -
  have h1: "INT64_MIN \<le> - 1" by (simp add: INT64_MIN_def)
  have h2: "- 1 \<le> INT64_MAX" by (simp add: INT64_MAX_def)
  have h3: "pending configured = None" by (simp add: configured_def)
  have h4: "create_throws backend_ok (type configured) = None" by (simp add: backend_ok_def)
  have h5: "connect_throws backend_ok \<lparr>created_as = type configured, connected_to = None\<rparr>
      (host configured) (database configured) (username configured) (password configured) = None"
    by (simp add: backend_ok_def)
  have u: "uint64_of_int64 (- 1) = 18446744073709551615" by (simp add: uint64_of_int64_def)
  from h1 h2 u timestamp_reaches_backend_unchanged [OF h1 h2 h3 h4 h5, of True "''qc/TEST/obj1''" 0 "[]" configured]
  show ?thesis by blast
qed




subsection \<open>Where the backend is called\<close>

text \<open>
  C3. The specification says that every failure of the backend, a failure of \<open>connect\<close>
  included, reaches the caller through the error slot of the continuation and is never
  thrown to the caller of \<open>get\<close>. The file does this for \<open>retrieveJson\<close>, which \<open>Execute\<close>
  calls: its exception becomes the argument of \<open>OnError\<close>. But \<open>create\<close> and \<open>connect\<close> are
  called by the constructor, and the constructor runs inside \<open>get\<close>. When one of them
  throws, the exception leaves \<open>get\<close>; it is not a \<open>Napi::Error\<close>, so nothing turns it into
  a JavaScript value. No worker is queued and the continuation is never called.
\<close>

theorem connect_failure_leaves_get_synchronously:
  "get True backend_refusing example_call configured =
     (Uncaught ''connection refused'',
      configured\<lparr>trace := [(MainThread, EnableThreadSafety), (MainThread, Create ''CCDB''),
        (MainThread, Connect ''ccdb.cern.ch'' ''qc'' ''reader'' ''secret'')]\<rparr>)
   \<and> get False backend_refusing example_call configured =
     (Uncaught ''connection refused'',
      configured\<lparr>trace := [(MainThread, EnableThreadSafety), (MainThread, Create ''CCDB''),
        (MainThread, Connect ''ccdb.cern.ch'' ''qc'' ''reader'' ''secret'')]\<rparr>)
   \<and> get True backend_no_factory example_call configured =
     (Uncaught ''unknown database type'',
      configured\<lparr>trace := [(MainThread, EnableThreadSafety), (MainThread, Create ''CCDB'')]\<rparr>)
   \<and> get False backend_no_factory example_call configured =
     (Uncaught ''unknown database type'',
      configured\<lparr>trace := [(MainThread, EnableThreadSafety), (MainThread, Create ''CCDB'')]\<rparr>)
   \<and> queue configured = []
   \<and> run_worker True backend_not_found example_worker configured =
     (Returns (),
      configured\<lparr>trace := [(WorkerThread, RetrieveJson ''qc/TEST/obj1'' 1000 Map.empty),
        (MainThread, MakeCallback (JFunction 0) (JObject [])
           [JError Error ''object not found'', JUndefined])]\<rparr>)"
proof -
  have c: "create_throws backend_refusing (type configured) = None"
    "connect_throws backend_refusing \<lparr>created_as = type configured, connected_to = None\<rparr>
      (host configured) (database configured) (username configured) (password configured)
      = Some ''connection refused''"
    by (simp_all add: backend_refusing_def)
  have d: "create_throws backend_no_factory (type configured) = Some ''unknown database type''"
    by (simp add: backend_no_factory_def)
  have r: "retrieveJson_gives backend_not_found (BackendInstance example_worker)
      (path example_worker) (timestamp example_worker) Map.empty = Inl ''object not found''"
    by (simp add: backend_not_found_def)
  show ?thesis
    unfolding example_call_def
    by (simp add: get_connect_throws [OF c] get_create_throws [OF d] run_worker_throws [OF r]
        del: double_to_int64.simps)
      (simp add: configured_def example_worker_def)
qed




end
